theory Spec2Isabelle
  imports Complex_Main "HOL-Library.AList"
begin

section \<open>The call gateway: \<^verbatim>\<open>utils/call_llm.py\<close>\<close>

subsection \<open>Python values\<close>

text \<open>
  What \<^verbatim>\<open>json.load\<close> can hand back, and so what the variable \<^verbatim>\<open>cache\<close> can hold:
  a JSON object is a Python dict (kept as an association list in insertion order, the
  first binding of a key being the one in force), an array a list. A JSON number is
  kept as an integer; no operation of the gateway looks inside a number.
\<close>

datatype json =
    JNull
  | JBool bool
  | JNum int
  | JStr string
  | JArr "json list"
  | JObj "(string \<times> json) list"

text \<open>
  The exceptions that can leave \<^verbatim>\<open>call_llm\<close>. A failure of the backend request
  carries the backend's own description of it.
\<close>

datatype py_error = TypeError | KeyError | BackendError string

text \<open>\<^verbatim>\<open>sub in s\<close> for two Python strings: \<^verbatim>\<open>sub\<close> occurs in \<^verbatim>\<open>s\<close>.\<close>

fun startswith :: "string \<Rightarrow> string \<Rightarrow> bool" where
  "startswith [] s = True"
| "startswith (c # cs) [] = False"
| "startswith (c # cs) (d # ds) = (c = d \<and> startswith cs ds)"

fun str_contains :: "string \<Rightarrow> string \<Rightarrow> bool" where
  "str_contains sub [] = (sub = [])"
| "str_contains sub (c # cs) = (startswith sub (c # cs) \<or> str_contains sub cs)"

text \<open>
  \<^verbatim>\<open>prompt in cache\<close>, \<^verbatim>\<open>cache[prompt]\<close> and \<^verbatim>\<open>cache[prompt] = v\<close> for a string
  \<^verbatim>\<open>prompt\<close>, by the type of \<^verbatim>\<open>cache\<close>: a dict is searched by key, a list by
  element, a string by substring, anything else is not iterable; only a dict can be
  subscripted by a string or assigned through one.
\<close>

definition py_contains :: "string \<Rightarrow> json \<Rightarrow> py_error + bool" where
  "py_contains k c =
     (case c of
        JObj kvs \<Rightarrow> Inr (k \<in> set (map fst kvs))
      | JArr xs \<Rightarrow> Inr (JStr k \<in> set xs)
      | JStr s \<Rightarrow> Inr (str_contains k s)
      | _ \<Rightarrow> Inl TypeError)"

definition py_getitem :: "json \<Rightarrow> string \<Rightarrow> py_error + json" where
  "py_getitem c k =
     (case c of
        JObj kvs \<Rightarrow> (case map_of kvs k of None \<Rightarrow> Inl KeyError | Some v \<Rightarrow> Inr v)
      | _ \<Rightarrow> Inl TypeError)"

definition py_setitem :: "json \<Rightarrow> string \<Rightarrow> json \<Rightarrow> py_error + json" where
  "py_setitem c k v =
     (case c of
        JObj kvs \<Rightarrow> Inr (JObj (AList.update k v kvs))
      | _ \<Rightarrow> Inl TypeError)"

subsection \<open>The cache file, the log and the backend\<close>

text \<open>
  The file \<^verbatim>\<open>llm_cache.json\<close> as the gateway can find it: absent
  (\<^verbatim>\<open>os.path.exists\<close> is false), present but such that opening it or
  \<^verbatim>\<open>json.load\<close> raises, or present and holding a JSON value.
\<close>

datatype file_state = Missing | Unreadable | Holds json

text \<open>
  How an attempt to write the file ends: it is written; \<^verbatim>\<open>open(cache_file, "w")\<close>
  raises and the file is as before; or the file is opened (so truncated) and
  \<^verbatim>\<open>json.dump\<close> raises part way, leaving text that does not parse.
\<close>

datatype save_outcome = Saved | OpenFailed | DumpFailed

text \<open>
  Everything a call does besides returning, in the order it happens: the records it
  appends to the log (\<^verbatim>\<open>logger.info\<close>, \<^verbatim>\<open>logger.error\<close>), its accesses to the
  cache file, and the requests it sends to the backend.
\<close>

datatype message = Prompt string | Estimate int | Response json

datatype failure = LoadFailed | SaveFailed

datatype effect =
    Info message
  | Error failure
  | Exists
  | OpenRead
  | OpenWrite
  | Request string

record run =
  returned :: "py_error + json"
  cache_after :: file_state
  effects :: "effect list"

subsection \<open>The functions\<close>

text \<open>\<^verbatim>\<open>estimate_tokens\<close>: \<^verbatim>\<open>len(text) // 4\<close>, a list element standing for one character.\<close>

definition estimate_tokens :: "string \<Rightarrow> int" where
  "estimate_tokens text = int (length text) div 4"

text \<open>
  The load that \<^verbatim>\<open>call_llm\<close> does twice (before the lookup, and again before the
  insertion): \<^verbatim>\<open>cache = {}\<close>, then, only if the file exists, \<^verbatim>\<open>json.load\<close> under
  \<^verbatim>\<open>try\<close>, an exception being logged and leaving \<^verbatim>\<open>cache\<close> empty.
\<close>

definition load_cache :: "file_state \<Rightarrow> json \<times> effect list" where
  "load_cache f =
     (case f of
        Missing \<Rightarrow> (JObj [], [Exists])
      | Unreadable \<Rightarrow> (JObj [], [Exists, OpenRead, Error LoadFailed])
      | Holds v \<Rightarrow> (v, [Exists, OpenRead]))"

text \<open>The save: \<^verbatim>\<open>json.dump(cache, f)\<close> under \<^verbatim>\<open>try\<close>, an exception being logged.\<close>

definition save_cache :: "save_outcome \<Rightarrow> json \<Rightarrow> file_state \<Rightarrow> file_state \<times> effect list" where
  "save_cache disk cache f =
     (case disk of
        Saved \<Rightarrow> (Holds cache, [OpenWrite])
      | OpenFailed \<Rightarrow> (f, [OpenWrite, Error SaveFailed])
      | DumpFailed \<Rightarrow> (Unreadable, [OpenWrite, Error SaveFailed]))"

text \<open>
  \<^verbatim>\<open>call_llm(prompt, use_cache)\<close>. Two arguments stand for the outside world during
  this one call: \<open>reply\<close> is what the backend does if it is asked (\<open>Inl\<close> its failure,
  \<open>Inr\<close> the text of its answer), \<open>disk\<close> how a write of the cache file would end. The
  last argument is the cache file as the call finds it.
\<close>

definition call_llm :: "string + string \<Rightarrow> save_outcome \<Rightarrow> string \<Rightarrow> bool \<Rightarrow> file_state \<Rightarrow> run" where
  "call_llm reply disk prompt use_cache f =
     (let logged = [Info (Prompt prompt), Info (Estimate (estimate_tokens prompt))];
          (cache, looked) = (if use_cache then load_cache f else (JObj [], []));
          found = (if use_cache then py_contains prompt cache else Inr False)
      in case found of
           Inl err \<Rightarrow> \<lparr>returned = Inl err, cache_after = f, effects = logged @ looked\<rparr>
         | Inr True \<Rightarrow>
             (case py_getitem cache prompt of
                Inl err \<Rightarrow> \<lparr>returned = Inl err, cache_after = f, effects = logged @ looked\<rparr>
              | Inr v \<Rightarrow>
                  \<lparr>returned = Inr v, cache_after = f,
                   effects = logged @ looked @ [Info (Response v)]\<rparr>)
         | Inr False \<Rightarrow>
             (case reply of
                Inl failed \<Rightarrow>
                  \<lparr>returned = Inl (BackendError failed), cache_after = f,
                   effects = logged @ looked @ [Request prompt]\<rparr>
              | Inr response_text \<Rightarrow>
                  (let answered =
                         logged @ looked @ [Request prompt, Info (Response (JStr response_text))]
                   in if use_cache then
                        (let (cache2, reloaded) = load_cache f
                         in case py_setitem cache2 prompt (JStr response_text) of
                              Inl err \<Rightarrow>
                                \<lparr>returned = Inl err, cache_after = f,
                                 effects = answered @ reloaded\<rparr>
                            | Inr cache3 \<Rightarrow>
                                (let (f', saved) = save_cache disk cache3 f
                                 in \<lparr>returned = Inr (JStr response_text), cache_after = f',
                                     effects = answered @ reloaded @ saved\<rparr>))
                      else
                        \<lparr>returned = Inr (JStr response_text), cache_after = f,
                         effects = answered\<rparr>)))"

text \<open>The backend requests among a call's effects, and its accesses to the cache file.\<close>

fun requests :: "effect list \<Rightarrow> string list" where
  "requests [] = []"
| "requests (Request p # es) = p # requests es"
| "requests (e # es) = requests es"

fun file_accesses :: "effect list \<Rightarrow> effect list" where
  "file_accesses [] = []"
| "file_accesses (Exists # es) = Exists # file_accesses es"
| "file_accesses (OpenRead # es) = OpenRead # file_accesses es"
| "file_accesses (OpenWrite # es) = OpenWrite # file_accesses es"
| "file_accesses (e # es) = file_accesses es"

section \<open>The configuration loader: \<^verbatim>\<open>main.py\<close>\<close>

subsection \<open>The default pattern sets\<close>

definition DEFAULT_INCLUDE_PATTERNS :: "string set" where
  "DEFAULT_INCLUDE_PATTERNS =
     {''*.py'', ''*.js'', ''*.jsx'', ''*.ts'', ''*.tsx'', ''*.go'', ''*.java'', ''*.pyi'', ''*.pyx'',
      ''*.c'', ''*.cc'', ''*.cpp'', ''*.h'', ''*.md'', ''*.rst'', ''Dockerfile'',
      ''Makefile'', ''*.yaml'', ''*.yml''}"

definition TEXT_ONLY_INCLUDE_PATTERNS :: "string set" where
  "TEXT_ONLY_INCLUDE_PATTERNS =
     {''*.md'', ''*.txt'', ''*.rst'', ''*.markdown'', ''README*'', ''documentation/*'', ''docs/*'',
      ''*.html'', ''*.mdx''}"

definition DEFAULT_EXCLUDE_PATTERNS :: "string set" where
  "DEFAULT_EXCLUDE_PATTERNS =
     {''assets/*'', ''data/*'', ''examples/*'', ''images/*'', ''public/*'', ''static/*'', ''temp/*'',
      ''docs/*'',
      ''venv/*'', ''.venv/*'', ''*test*'', ''tests/*'', ''docs/*'', ''examples/*'', ''v1/*'',
      ''dist/*'', ''build/*'', ''experimental/*'', ''deprecated/*'', ''misc/*'',
      ''legacy/*'', ''.git/*'', ''.github/*'', ''.next/*'', ''.vscode/*'', ''obj/*'', ''bin/*'',
      ''node_modules/*'', ''*.log''}"

definition TEXT_ONLY_EXCLUDE_PATTERNS :: "string set" where
  "TEXT_ONLY_EXCLUDE_PATTERNS =
     {''venv/*'', ''.venv/*'', ''node_modules/*'', ''.git/*'', ''.github/*'', ''.next/*'',
      ''.vscode/*'', ''dist/*'', ''build/*'', ''obj/*'', ''bin/*'', ''*.log''}"

subsection \<open>The command line and its parser\<close>

text \<open>
  The command line as the user wrote it, option by option: an option is left out, given
  with a value the parser accepts, or given in a way the parser refuses (its value is
  missing, or is not an integer where \<^verbatim>\<open>type=int\<close> asks for one). The two
  \<^verbatim>\<open>store_true\<close> flags are present or not. How the words of \<^verbatim>\<open>sys.argv\<close> are cut
  into options is argparse's business and is not modelled; neither is \<^verbatim>\<open>--help\<close>.
\<close>

datatype 'a given = Omitted | Given 'a | Malformed

record command_line =
  opt_repo :: "string given"
  opt_dir :: "string given"
  opt_name :: "string given"
  opt_token :: "string given"
  opt_output :: "string given"
  opt_include :: "string list given"
  opt_exclude :: "string list given"
  opt_max_size :: "int given"
  opt_language :: "string given"
  opt_no_cache :: bool
  opt_max_abstractions :: "int given"
  opt_text_only :: bool
  opt_max_tokens :: "int given"

text \<open>The namespace \<^verbatim>\<open>args\<close> that \<^verbatim>\<open>parser.parse_args()\<close> returns.\<close>

record args =
  arg_repo :: "string option"
  arg_dir :: "string option"
  arg_name :: "string option"
  arg_token :: "string option"
  arg_output :: string
  arg_include :: "string list option"
  arg_exclude :: "string list option"
  arg_max_size :: int
  arg_language :: string
  arg_no_cache :: bool
  arg_max_abstractions :: int
  arg_text_only :: bool
  arg_max_tokens :: int

text \<open>argparse's \<^verbatim>\<open>parser.error\<close>: the usage message, then exit with status 2.\<close>

datatype parser_exit = UsageError

fun accepted :: "'a given \<Rightarrow> bool" where
  "accepted Malformed = False"
| "accepted _ = True"

fun is_given :: "'a given \<Rightarrow> bool" where
  "is_given (Given v) = True"
| "is_given _ = False"

fun value_or :: "'a given \<Rightarrow> 'a \<Rightarrow> 'a" where
  "value_or (Given v) d = v"
| "value_or _ d = d"

fun value_opt :: "'a given \<Rightarrow> 'a option" where
  "value_opt (Given v) = Some v"
| "value_opt _ = None"

text \<open>\<^verbatim>\<open>nargs="+"\<close>: the option takes one value at least.\<close>

fun accepted_list :: "'a list given \<Rightarrow> bool" where
  "accepted_list Malformed = False"
| "accepted_list (Given []) = False"
| "accepted_list _ = True"

text \<open>
  \<^verbatim>\<open>parse_args\<close> for the parser that \<^verbatim>\<open>main\<close> builds: every option is read with its
  declared default; \<^verbatim>\<open>--repo\<close> and \<^verbatim>\<open>--dir\<close> form a mutually exclusive group that
  is required, so the parser exits when both are given and when neither is.
\<close>

definition parse_args :: "command_line \<Rightarrow> parser_exit + args" where
  "parse_args c =
     (if accepted (opt_repo c) \<and> accepted (opt_dir c) \<and> accepted (opt_name c)
         \<and> accepted (opt_token c) \<and> accepted (opt_output c)
         \<and> accepted_list (opt_include c) \<and> accepted_list (opt_exclude c)
         \<and> accepted (opt_max_size c) \<and> accepted (opt_language c)
         \<and> accepted (opt_max_abstractions c) \<and> accepted (opt_max_tokens c)
      then
        if is_given (opt_repo c) \<and> is_given (opt_dir c) then Inl UsageError
        else if is_given (opt_repo c) \<or> is_given (opt_dir c) then
          Inr \<lparr>arg_repo = value_opt (opt_repo c),
               arg_dir = value_opt (opt_dir c),
               arg_name = value_opt (opt_name c),
               arg_token = value_opt (opt_token c),
               arg_output = value_or (opt_output c) ''output'',
               arg_include = value_opt (opt_include c),
               arg_exclude = value_opt (opt_exclude c),
               arg_max_size = value_or (opt_max_size c) 100000,
               arg_language = value_or (opt_language c) ''english'',
               arg_no_cache = opt_no_cache c,
               arg_max_abstractions = value_or (opt_max_abstractions c) 10,
               arg_text_only = opt_text_only c,
               arg_max_tokens = value_or (opt_max_tokens c) 30000\<rparr>
        else Inl UsageError
      else Inl UsageError)"

subsection \<open>The initial shared dictionary\<close>

text \<open>
  \<^verbatim>\<open>SharedDict\<close>. The fields typed \<^verbatim>\<open>Any\<close> hold Python values; they start empty and
  the stages of the flow fill them.
\<close>

record shared =
  repo_url :: "string option"
  local_dir :: "string option"
  project_name :: "string option"
  github_token :: "string option"
  output_dir :: string
  include_patterns :: "string set"
  exclude_patterns :: "string set"
  max_file_size :: int
  language :: string
  use_cache :: bool
  max_abstraction_num :: int
  text_only :: bool
  max_tokens :: int
  files :: "json list"
  abstractions :: "json list"
  relationships :: "(json \<times> json) list"
  chapter_order :: "json list"
  chapters :: "json list"
  final_output_dir :: "string option"

text \<open>Python's truth value of an optional string, and \<^verbatim>\<open>a or b\<close> on two of them.\<close>

definition truthy :: "string option \<Rightarrow> bool" where
  "truthy x = (case x of None \<Rightarrow> False | Some s \<Rightarrow> s \<noteq> [])"

definition py_or :: "string option \<Rightarrow> string option \<Rightarrow> string option" where
  "py_or a b = (if truthy a then a else b)"

text \<open>
  \<^verbatim>\<open>set(args.include) if args.include else (TEXT_ONLY if args.text_only else DEFAULT)\<close>,
  for either pair of pattern sets.
\<close>

definition patterns :: "string list option \<Rightarrow> bool \<Rightarrow> string set \<Rightarrow> string set \<Rightarrow> string set" where
  "patterns chosen text_mode text_default code_default =
     (case chosen of
        Some (p # ps) \<Rightarrow> set (p # ps)
      | _ \<Rightarrow> (if text_mode then text_default else code_default))"

text \<open>
  The body of \<^verbatim>\<open>main\<close> from the token to the dictionary. \<open>environ\<close> is
  \<^verbatim>\<open>os.environ\<close> as it is once \<^verbatim>\<open>dotenv.load_dotenv()\<close> has run.
\<close>

definition initial_shared :: "(string \<rightharpoonup> string) \<Rightarrow> args \<Rightarrow> shared" where
  "initial_shared environ a =
     \<lparr>repo_url = arg_repo a,
      local_dir = arg_dir a,
      project_name = arg_name a,
      github_token =
        (if truthy (arg_repo a) then py_or (arg_token a) (environ ''GITHUB_TOKEN'') else None),
      output_dir = arg_output a,
      include_patterns =
        patterns (arg_include a) (arg_text_only a) TEXT_ONLY_INCLUDE_PATTERNS DEFAULT_INCLUDE_PATTERNS,
      exclude_patterns =
        patterns (arg_exclude a) (arg_text_only a) TEXT_ONLY_EXCLUDE_PATTERNS DEFAULT_EXCLUDE_PATTERNS,
      max_file_size = arg_max_size a,
      language = arg_language a,
      use_cache = (\<not> arg_no_cache a),
      max_abstraction_num = arg_max_abstractions a,
      text_only = arg_text_only a,
      max_tokens = arg_max_tokens a,
      files = [],
      abstractions = [],
      relationships = [],
      chapter_order = [],
      chapters = [],
      final_output_dir = None\<rparr>"

text \<open>
  \<^verbatim>\<open>main\<close> up to the point where it hands the dictionary to the flow: either the
  parser has exited and nothing more happens, or the flow is run on the dictionary. What
  \<^verbatim>\<open>main\<close> prints is left out.
\<close>

datatype outcome = Exited parser_exit | Ran shared

definition main :: "(string \<rightharpoonup> string) \<Rightarrow> command_line \<Rightarrow> outcome" where
  "main environ c =
     (case parse_args c of
        Inl e \<Rightarrow> Exited e
      | Inr a \<Rightarrow> Ran (initial_shared environ a))"

text \<open>A command line that gives no option at all, to build examples from.\<close>

definition bare :: command_line where
  "bare =
     \<lparr>opt_repo = Omitted, opt_dir = Omitted, opt_name = Omitted, opt_token = Omitted,
      opt_output = Omitted, opt_include = Omitted, opt_exclude = Omitted,
      opt_max_size = Omitted, opt_language = Omitted, opt_no_cache = False,
      opt_max_abstractions = Omitted, opt_text_only = False, opt_max_tokens = Omitted\<rparr>"

section \<open>Properties of the gateway\<close>

text \<open>
  C9. The token estimate is the floor of the text's length divided by 4; so it is 0 for
  a text of fewer than 4 characters, and a text at least as long as another has an
  estimate at least as large.
\<close>

theorem estimate_tokens_floor:
  "estimate_tokens t = \<lfloor>real (length t) / 4\<rfloor>
   \<and> (length t < 4 \<longrightarrow> estimate_tokens t = 0)
   \<and> (length s \<le> length t \<longrightarrow> estimate_tokens s \<le> estimate_tokens t)"
proof -
  have "\<lfloor>real (length t) / real 4\<rfloor> = int (length t div 4)"
    by (rule floor_divide_of_nat_eq)
  then have "\<lfloor>real (length t) / 4\<rfloor> = int (length t) div 4"
    by (simp add: zdiv_int)
  moreover have "length t < 4 \<Longrightarrow> int (length t) div 4 = 0"
    by simp
  moreover have "length s \<le> length t \<Longrightarrow> int (length s) div 4 \<le> int (length t) div 4"
    by (simp add: zdiv_mono1)
  ultimately show ?thesis
    by (simp add: estimate_tokens_def)
qed

theorem estimate_tokens_floor_witness:
  "estimate_tokens ''Hello, how are you?'' = \<lfloor>real (length ''Hello, how are you?'') / 4\<rfloor>
   \<and> estimate_tokens ''Hello, how are you?'' = 4
   \<and> length ''abc'' < 4 \<and> estimate_tokens ''abc'' = 0
   \<and> length ''abc'' \<le> length ''Hello, how are you?''
   \<and> estimate_tokens ''abc'' \<le> estimate_tokens ''Hello, how are you?''"
  using estimate_tokens_floor [of "''abc''" "''Hello, how are you?''"]
        estimate_tokens_floor [of "''Hello, how are you?''" "''abc''"]
  by (simp add: estimate_tokens_def)

lemma requests_append: "requests (xs @ ys) = requests xs @ requests ys"
  by (induction xs rule: requests.induct) simp_all

lemma file_accesses_append: "file_accesses (xs @ ys) = file_accesses xs @ file_accesses ys"
  by (induction xs rule: file_accesses.induct) simp_all

lemma load_cache_requests: "requests (snd (load_cache f)) = []"
  by (cases f) (simp_all add: load_cache_def)

lemma save_cache_requests: "requests (snd (save_cache disk c f)) = []"
  by (cases disk) (simp_all add: save_cache_def)

lemma load_cache_object:
  "fst (load_cache f) = JObj m \<longleftrightarrow>
     (f = Missing \<and> m = [] \<or> f = Unreadable \<and> m = [] \<or> f = Holds (JObj m))"
  by (cases f) (auto simp add: load_cache_def)

text \<open>
  C2. With \<^verbatim>\<open>use_cache\<close> false the call sends the prompt to the backend once, whatever
  the cache file holds; what it returns is the backend's answer or the backend's failure
  and nothing else; it does not probe, read or write the cache file, which is afterwards
  as it was.
\<close>

theorem call_llm_bypass:
  "returned (call_llm reply disk prompt False f) =
     (case reply of Inl failed \<Rightarrow> Inl (BackendError failed) | Inr text \<Rightarrow> Inr (JStr text))
   \<and> requests (effects (call_llm reply disk prompt False f)) = [prompt]
   \<and> file_accesses (effects (call_llm reply disk prompt False f)) = []
   \<and> cache_after (call_llm reply disk prompt False f) = f"
  by (cases reply) (simp_all add: call_llm_def)

theorem call_llm_bypass_witness:
  "returned (call_llm (Inr ''new'') Saved ''P'' False (Holds (JObj [(''P'', JStr ''old'')])))
     = Inr (JStr ''new'')
   \<and> requests (effects (call_llm (Inr ''new'') Saved ''P'' False
         (Holds (JObj [(''P'', JStr ''old'')])))) = [''P'']
   \<and> file_accesses (effects (call_llm (Inr ''new'') Saved ''P'' False
         (Holds (JObj [(''P'', JStr ''old'')])))) = []
   \<and> cache_after (call_llm (Inr ''new'') Saved ''P'' False (Holds (JObj [(''P'', JStr ''old'')])))
     = Holds (JObj [(''P'', JStr ''old'')])"
  using call_llm_bypass [of "Inr ''new''" Saved "''P''" "Holds (JObj [(''P'', JStr ''old'')])"]
  by simp

text \<open>
  C5. When caching is disabled, or the lookup in the loaded cache misses, the call sends
  exactly one request, carrying the prompt, whether the backend answers or fails (there
  is no second attempt); and when the backend fails, the caller gets that very failure
  and the cache file is left as it was.
\<close>

theorem call_llm_single_request:
  assumes "uc \<longrightarrow> py_contains prompt (fst (load_cache f)) = Inr False"
  shows "requests (effects (call_llm reply disk prompt uc f)) = [prompt]
         \<and> (\<forall>failed. reply = Inl failed \<longrightarrow>
               returned (call_llm reply disk prompt uc f) = Inl (BackendError failed)
               \<and> cache_after (call_llm reply disk prompt uc f) = f)"
  using assms
  by (cases reply; cases uc)
     (auto simp add: call_llm_def Let_def split_beta requests_append
           load_cache_requests save_cache_requests split: sum.splits)

theorem call_llm_single_request_witness:
  "py_contains ''P'' (fst (load_cache (Holds (JObj [(''Q'', JStr ''old'')])))) = Inr False
   \<and> requests (effects (call_llm (Inl ''timeout'') Saved ''P'' True
         (Holds (JObj [(''Q'', JStr ''old'')])))) = [''P'']
   \<and> returned (call_llm (Inl ''timeout'') Saved ''P'' True (Holds (JObj [(''Q'', JStr ''old'')])))
     = Inl (BackendError ''timeout'')
   \<and> cache_after (call_llm (Inl ''timeout'') Saved ''P'' True (Holds (JObj [(''Q'', JStr ''old'')])))
     = Holds (JObj [(''Q'', JStr ''old'')])
   \<and> requests (effects (call_llm (Inl ''timeout'') Saved ''P'' False
         (Holds (JObj [(''P'', JStr ''old'')])))) = [''P'']
   \<and> returned (call_llm (Inl ''timeout'') Saved ''P'' False (Holds (JObj [(''P'', JStr ''old'')])))
     = Inl (BackendError ''timeout'')"
  using call_llm_single_request
          [of True "''P''" "Holds (JObj [(''Q'', JStr ''old'')])" "Inl ''timeout''" Saved]
        call_llm_single_request
          [of False "''P''" "Holds (JObj [(''P'', JStr ''old'')])" "Inl ''timeout''" Saved]
  by (simp add: py_contains_def load_cache_def)

lemmas gateway_defs =
  call_llm_def load_cache_def save_cache_def py_contains_def py_getitem_def py_setitem_def

text \<open>
  A hit: the prompt is a key of the object in the file. The stored value is returned, no
  request is sent and the file stays as it is, whatever the backend would have done.
\<close>

lemma call_llm_hit:
  assumes "map_of m prompt = Some v"
  shows "returned (call_llm reply disk prompt True (Holds (JObj m))) = Inr v
         \<and> requests (effects (call_llm reply disk prompt True (Holds (JObj m)))) = []
         \<and> cache_after (call_llm reply disk prompt True (Holds (JObj m))) = Holds (JObj m)"
proof -
  from assms have "prompt \<in> fst ` set m"
    by (metis domI dom_map_of_conv_image_fst)
  with assms show ?thesis
    by (simp add: gateway_defs)
qed

text \<open>
  C3, as stated, fails for the missing file: \<^verbatim>\<open>os.path.exists\<close> guards the load, so
  nothing is attempted, nothing raises and no error is logged. The call below finds no
  file and returns the backend's answer; these are all its effects, and no failure is
  among them.
\<close>

theorem call_llm_missing_not_logged:
  "returned (call_llm (Inr ''R1'') Saved ''P'' True Missing) = Inr (JStr ''R1'')
   \<and> effects (call_llm (Inr ''R1'') Saved ''P'' True Missing) =
       [Info (Prompt ''P''), Info (Estimate 0), Exists, Request ''P'',
        Info (Response (JStr ''R1'')), Exists, OpenWrite]"
  by (simp add: gateway_defs estimate_tokens_def)

text \<open>
  C3, amended. If the cache file is missing or cannot be read or parsed, the load yields
  the empty mapping and a call with caching enabled goes to the backend once; what the
  caller gets is the backend's answer, or the backend's own failure, never a failure of
  the load. The load failure is logged exactly when the file is there and unreadable; a
  missing file logs nothing.
\<close>

theorem call_llm_load_resilient:
  assumes "f = Missing \<or> f = Unreadable"
  shows "fst (load_cache f) = JObj []
         \<and> returned (call_llm reply disk prompt True f) =
             (case reply of Inl failed \<Rightarrow> Inl (BackendError failed) | Inr text \<Rightarrow> Inr (JStr text))
         \<and> requests (effects (call_llm reply disk prompt True f)) = [prompt]
         \<and> (Error LoadFailed \<in> set (effects (call_llm reply disk prompt True f)) \<longleftrightarrow> f = Unreadable)"
  using assms
  by (cases reply; cases disk) (auto simp add: gateway_defs)

theorem call_llm_load_resilient_witness:
  "fst (load_cache Unreadable) = JObj []
   \<and> returned (call_llm (Inr ''R1'') Saved ''P'' True Unreadable) = Inr (JStr ''R1'')
   \<and> requests (effects (call_llm (Inr ''R1'') Saved ''P'' True Unreadable)) = [''P'']
   \<and> Error LoadFailed \<in> set (effects (call_llm (Inr ''R1'') Saved ''P'' True Unreadable))
   \<and> fst (load_cache Missing) = JObj []
   \<and> returned (call_llm (Inl ''timeout'') Saved ''P'' True Missing) = Inl (BackendError ''timeout'')
   \<and> requests (effects (call_llm (Inl ''timeout'') Saved ''P'' True Missing)) = [''P'']
   \<and> Error LoadFailed \<notin> set (effects (call_llm (Inl ''timeout'') Saved ''P'' True Missing))"
  using call_llm_load_resilient [of Unreadable "Inr ''R1''" Saved "''P''"]
        call_llm_load_resilient [of Missing "Inl ''timeout''" Saved "''P''"]
  by simp




text \<open>
  C1, as stated, fails when the first call cannot write the cache file: the failure is
  logged and swallowed, nothing is stored, and the second call goes to the backend again,
  which may answer differently.
\<close>

theorem call_llm_twice_unsaved:
  "returned (call_llm (Inr ''R1'') OpenFailed ''P'' True Missing) = Inr (JStr ''R1'')
   \<and> returned (call_llm (Inr ''R2'') Saved ''P'' True
         (cache_after (call_llm (Inr ''R1'') OpenFailed ''P'' True Missing))) = Inr (JStr ''R2'')
   \<and> requests (effects (call_llm (Inr ''R1'') OpenFailed ''P'' True Missing)
         @ effects (call_llm (Inr ''R2'') Saved ''P'' True
             (cache_after (call_llm (Inr ''R1'') OpenFailed ''P'' True Missing)))) = [''P'', ''P'']"
  by (simp add: gateway_defs)

text \<open>
  C1, amended. Let the loaded cache be a mapping without the prompt, let the backend
  answer the first call with \<open>text\<close> and let that call's write of the cache file succeed.
  Then two calls with the prompt and caching enabled, the second on the file the first
  left, both return \<open>text\<close>, and between them exactly one request goes to the backend:
  the second call sends none, whatever the backend or the disk would do during it.
\<close>

theorem call_llm_twice:
  assumes "fst (load_cache f) = JObj m" and "prompt \<notin> set (map fst m)"
  shows "let first = call_llm (Inr text) Saved prompt True f;
             second = call_llm reply2 disk2 prompt True (cache_after first)
         in returned first = Inr (JStr text)
            \<and> returned second = Inr (JStr text)
            \<and> requests (effects first @ effects second) = [prompt]
            \<and> requests (effects second) = []"
proof -
  from assms(1) consider "f = Missing" "m = []" | "f = Unreadable" "m = []" | "f = Holds (JObj m)"
    by (auto simp add: load_cache_object)
  then show ?thesis
  proof cases
    case 1
    then show ?thesis
      by (simp add: gateway_defs)
  next
    case 2
    then show ?thesis
      by (simp add: gateway_defs)
  next
    case 3
    with assms(2) show ?thesis
      by (simp add: gateway_defs update_conv' dom_update)
  qed
qed

theorem call_llm_twice_witness:
  "fst (load_cache Missing) = JObj []
   \<and> ''Identify abstractions in file X'' \<notin> set (map fst ([] :: (string \<times> json) list))
   \<and> returned (call_llm (Inr ''R1'') Saved ''Identify abstractions in file X'' True Missing)
       = Inr (JStr ''R1'')
   \<and> cache_after (call_llm (Inr ''R1'') Saved ''Identify abstractions in file X'' True Missing)
       = Holds (JObj [(''Identify abstractions in file X'', JStr ''R1'')])
   \<and> returned (call_llm (Inl ''offline'') OpenFailed ''Identify abstractions in file X'' True
         (cache_after (call_llm (Inr ''R1'') Saved ''Identify abstractions in file X'' True Missing)))
       = Inr (JStr ''R1'')
   \<and> requests (effects (call_llm (Inr ''R1'') Saved ''Identify abstractions in file X'' True Missing)
         @ effects (call_llm (Inl ''offline'') OpenFailed ''Identify abstractions in file X'' True
             (cache_after (call_llm (Inr ''R1'') Saved ''Identify abstractions in file X'' True Missing))))
       = [''Identify abstractions in file X'']"
  using call_llm_twice
          [of Missing "[]" "''Identify abstractions in file X''" "''R1''" "Inl ''offline''" OpenFailed]
  by (simp add: gateway_defs)

section \<open>Properties of the configuration loader\<close>

lemmas loader_defs = main_def parse_args_def initial_shared_def

lemma main_Ran:
  "main environ c = Ran sh \<Longrightarrow> \<exists>a. parse_args c = Inr a \<and> sh = initial_shared environ a"
  by (auto simp add: main_def split: sum.splits)

lemma parse_args_Inr:
  "parse_args c = Inr a \<Longrightarrow>
     is_given (opt_repo c) \<noteq> is_given (opt_dir c)
     \<and> arg_repo a = value_opt (opt_repo c) \<and> arg_dir a = value_opt (opt_dir c)
     \<and> arg_name a = value_opt (opt_name c) \<and> arg_token a = value_opt (opt_token c)
     \<and> arg_output a = value_or (opt_output c) ''output''
     \<and> arg_include a = value_opt (opt_include c) \<and> arg_exclude a = value_opt (opt_exclude c)
     \<and> arg_max_size a = value_or (opt_max_size c) 100000
     \<and> arg_language a = value_or (opt_language c) ''english''
     \<and> arg_no_cache a = opt_no_cache c
     \<and> arg_max_abstractions a = value_or (opt_max_abstractions c) 10
     \<and> arg_text_only a = opt_text_only c
     \<and> arg_max_tokens a = value_or (opt_max_tokens c) 30000"
  by (auto simp add: parse_args_def split: if_splits)

lemma value_opt_None: "value_opt g = None \<longleftrightarrow> \<not> is_given g"
  by (cases g) simp_all

text \<open>
  C6. A command line that gives both \<^verbatim>\<open>--repo\<close> and \<^verbatim>\<open>--dir\<close>, or neither,
  makes the parser exit: \<^verbatim>\<open>main\<close> ends there and the flow is never run. Whenever the
  flow is run, exactly one of \<^verbatim>\<open>repo_url\<close> and \<^verbatim>\<open>local_dir\<close> of the dictionary it
  gets is set (is not \<^verbatim>\<open>None\<close>).
\<close>

theorem main_exactly_one_source:
  "(is_given (opt_repo c) \<and> is_given (opt_dir c) \<or> opt_repo c = Omitted \<and> opt_dir c = Omitted
      \<longrightarrow> main environ c = Exited UsageError)
   \<and> (\<forall>sh. main environ c = Ran sh \<longrightarrow> (repo_url sh = None) \<noteq> (local_dir sh = None))"
proof (intro conjI impI allI)
  assume "is_given (opt_repo c) \<and> is_given (opt_dir c) \<or> opt_repo c = Omitted \<and> opt_dir c = Omitted"
  then show "main environ c = Exited UsageError"
    by (auto simp add: main_def parse_args_def)
next
  fix sh
  assume "main environ c = Ran sh"
  then obtain a where a: "parse_args c = Inr a" and sh: "sh = initial_shared environ a"
    using main_Ran by blast
  from parse_args_Inr [OF a] sh show "(repo_url sh = None) \<noteq> (local_dir sh = None)"
    by (simp add: initial_shared_def value_opt_None)
qed

theorem main_exactly_one_source_witness:
  "is_given (opt_repo (bare\<lparr>opt_repo := Given ''https://github.com/o/r'', opt_dir := Given ''/repo''\<rparr>))
   \<and> is_given (opt_dir (bare\<lparr>opt_repo := Given ''https://github.com/o/r'', opt_dir := Given ''/repo''\<rparr>))
   \<and> main Map.empty (bare\<lparr>opt_repo := Given ''https://github.com/o/r'', opt_dir := Given ''/repo''\<rparr>)
       = Exited UsageError
   \<and> opt_repo bare = Omitted \<and> opt_dir bare = Omitted
   \<and> main Map.empty bare = Exited UsageError
   \<and> (case main Map.empty (bare\<lparr>opt_dir := Given ''/repo''\<rparr>) of
         Ran sh \<Rightarrow> repo_url sh = None \<and> local_dir sh = Some ''/repo''
       | Exited e \<Rightarrow> False)"
  using main_exactly_one_source
          [of "bare\<lparr>opt_repo := Given ''https://github.com/o/r'', opt_dir := Given ''/repo''\<rparr>" Map.empty]
        main_exactly_one_source [of bare Map.empty]
        main_exactly_one_source [of "bare\<lparr>opt_dir := Given ''/repo''\<rparr>" Map.empty]
  by (simp add: loader_defs bare_def)

text \<open>
  C7. In text-only mode with neither \<^verbatim>\<open>--include\<close> nor \<^verbatim>\<open>--exclude\<close> given, the
  dictionary's include patterns are the text-only default set, which holds
  \<^verbatim>\<open>*.md\<close> and \<^verbatim>\<open>*.txt\<close> and neither \<^verbatim>\<open>*.py\<close> nor \<^verbatim>\<open>*.go\<close> (both of which the
  code default set holds), and its exclude patterns are the text-only default exclude set.
\<close>

theorem main_text_only_patterns:
  assumes "main environ c = Ran sh" and "opt_text_only c"
    and "opt_include c = Omitted" and "opt_exclude c = Omitted"
  shows "include_patterns sh = TEXT_ONLY_INCLUDE_PATTERNS
         \<and> exclude_patterns sh = TEXT_ONLY_EXCLUDE_PATTERNS
         \<and> ''*.md'' \<in> include_patterns sh \<and> ''*.txt'' \<in> include_patterns sh
         \<and> ''*.py'' \<notin> include_patterns sh \<and> ''*.go'' \<notin> include_patterns sh
         \<and> ''*.py'' \<in> DEFAULT_INCLUDE_PATTERNS \<and> ''*.go'' \<in> DEFAULT_INCLUDE_PATTERNS"
proof -
  from assms(1) obtain a where a: "parse_args c = Inr a" and sh: "sh = initial_shared environ a"
    using main_Ran by blast
  from parse_args_Inr [OF a] assms(2-4)
  have "arg_include a = None" and "arg_exclude a = None" and "arg_text_only a"
    by simp_all
  with sh have inc: "include_patterns sh = TEXT_ONLY_INCLUDE_PATTERNS"
    and exc: "exclude_patterns sh = TEXT_ONLY_EXCLUDE_PATTERNS"
    by (simp_all add: initial_shared_def patterns_def)
  have "''*.md'' \<in> TEXT_ONLY_INCLUDE_PATTERNS" and "''*.txt'' \<in> TEXT_ONLY_INCLUDE_PATTERNS"
    and "''*.py'' \<notin> TEXT_ONLY_INCLUDE_PATTERNS" and "''*.go'' \<notin> TEXT_ONLY_INCLUDE_PATTERNS"
    by (simp_all add: TEXT_ONLY_INCLUDE_PATTERNS_def)
  moreover have "''*.py'' \<in> DEFAULT_INCLUDE_PATTERNS" and "''*.go'' \<in> DEFAULT_INCLUDE_PATTERNS"
    by (simp_all add: DEFAULT_INCLUDE_PATTERNS_def)
  ultimately show ?thesis
    using inc exc by simp
qed

theorem main_text_only_patterns_witness:
  "main Map.empty (bare\<lparr>opt_dir := Given ''/repo'', opt_text_only := True\<rparr>)
     = Ran (initial_shared Map.empty
         \<lparr>arg_repo = None, arg_dir = Some ''/repo'', arg_name = None, arg_token = None,
          arg_output = ''output'', arg_include = None, arg_exclude = None,
          arg_max_size = 100000, arg_language = ''english'', arg_no_cache = False,
          arg_max_abstractions = 10, arg_text_only = True, arg_max_tokens = 30000\<rparr>)
   \<and> opt_text_only (bare\<lparr>opt_dir := Given ''/repo'', opt_text_only := True\<rparr>)
   \<and> opt_include (bare\<lparr>opt_dir := Given ''/repo'', opt_text_only := True\<rparr>) = Omitted
   \<and> opt_exclude (bare\<lparr>opt_dir := Given ''/repo'', opt_text_only := True\<rparr>) = Omitted
   \<and> include_patterns (initial_shared Map.empty
         \<lparr>arg_repo = None, arg_dir = Some ''/repo'', arg_name = None, arg_token = None,
          arg_output = ''output'', arg_include = None, arg_exclude = None,
          arg_max_size = 100000, arg_language = ''english'', arg_no_cache = False,
          arg_max_abstractions = 10, arg_text_only = True, arg_max_tokens = 30000\<rparr>)
       = TEXT_ONLY_INCLUDE_PATTERNS"
proof -
  have run: "main Map.empty (bare\<lparr>opt_dir := Given ''/repo'', opt_text_only := True\<rparr>)
     = Ran (initial_shared Map.empty
         \<lparr>arg_repo = None, arg_dir = Some ''/repo'', arg_name = None, arg_token = None,
          arg_output = ''output'', arg_include = None, arg_exclude = None,
          arg_max_size = 100000, arg_language = ''english'', arg_no_cache = False,
          arg_max_abstractions = 10, arg_text_only = True, arg_max_tokens = 30000\<rparr>)"
    by (simp add: main_def parse_args_def bare_def)
  from main_text_only_patterns [OF run] run show ?thesis
    by (simp add: bare_def)
qed

text \<open>
  C8. The dictionary handed to the flow carries the default of every option that was
  left out: output directory \<^verbatim>\<open>output\<close>, maximal file size 100000, language
  \<^verbatim>\<open>english\<close>, caching on, at most 10 abstractions, text-only mode off, 30000 tokens.
  Its result fields start empty: no files, abstractions, chapter order or chapters, no
  relationships, no final output directory.
\<close>

theorem main_defaults:
  assumes "main environ c = Ran sh"
  shows "(opt_output c = Omitted \<longrightarrow> output_dir sh = ''output'')
         \<and> (opt_max_size c = Omitted \<longrightarrow> max_file_size sh = 100000)
         \<and> (opt_language c = Omitted \<longrightarrow> language sh = ''english'')
         \<and> (\<not> opt_no_cache c \<longrightarrow> use_cache sh)
         \<and> (opt_max_abstractions c = Omitted \<longrightarrow> max_abstraction_num sh = 10)
         \<and> (\<not> opt_text_only c \<longrightarrow> \<not> text_only sh)
         \<and> (opt_max_tokens c = Omitted \<longrightarrow> max_tokens sh = 30000)
         \<and> files sh = [] \<and> abstractions sh = [] \<and> chapter_order sh = [] \<and> chapters sh = []
         \<and> relationships sh = [] \<and> final_output_dir sh = None"
proof -
  from assms obtain a where a: "parse_args c = Inr a" and sh: "sh = initial_shared environ a"
    using main_Ran by blast
  from parse_args_Inr [OF a] sh show ?thesis
    by (simp add: initial_shared_def)
qed

theorem main_defaults_witness:
  "(case main Map.empty (bare\<lparr>opt_dir := Given ''/repo''\<rparr>) of
      Ran sh \<Rightarrow>
        output_dir sh = ''output'' \<and> max_file_size sh = 100000 \<and> language sh = ''english''
        \<and> use_cache sh \<and> max_abstraction_num sh = 10 \<and> \<not> text_only sh \<and> max_tokens sh = 30000
        \<and> files sh = [] \<and> abstractions sh = [] \<and> chapter_order sh = [] \<and> chapters sh = []
        \<and> relationships sh = [] \<and> final_output_dir sh = None
    | Exited e \<Rightarrow> False)
   \<and> opt_output (bare\<lparr>opt_dir := Given ''/repo''\<rparr>) = Omitted
   \<and> opt_max_size (bare\<lparr>opt_dir := Given ''/repo''\<rparr>) = Omitted
   \<and> opt_language (bare\<lparr>opt_dir := Given ''/repo''\<rparr>) = Omitted
   \<and> \<not> opt_no_cache (bare\<lparr>opt_dir := Given ''/repo''\<rparr>)
   \<and> opt_max_abstractions (bare\<lparr>opt_dir := Given ''/repo''\<rparr>) = Omitted
   \<and> \<not> opt_text_only (bare\<lparr>opt_dir := Given ''/repo''\<rparr>)
   \<and> opt_max_tokens (bare\<lparr>opt_dir := Given ''/repo''\<rparr>) = Omitted"
proof -
  obtain sh where run: "main Map.empty (bare\<lparr>opt_dir := Given ''/repo''\<rparr>) = Ran sh"
    by (simp add: main_def parse_args_def bare_def)
  from main_defaults [OF run] run show ?thesis
    by (simp add: bare_def)
qed

text \<open>
  C10. When no repository URL is given, the dictionary's \<^verbatim>\<open>github_token\<close> is
  \<^verbatim>\<open>None\<close>, whatever \<^verbatim>\<open>--token\<close> and the environment say, and the outcome of
  \<^verbatim>\<open>main\<close> does not depend on the environment at all.
\<close>

theorem main_local_dir_no_token:
  assumes "\<not> is_given (opt_repo c)"
  shows "(\<forall>sh. main environ c = Ran sh \<longrightarrow> github_token sh = None)
         \<and> main environ c = main environ' c"
proof -
  from assms have none: "value_opt (opt_repo c) = None"
    by (simp add: value_opt_None)
  have "github_token (initial_shared e a) = None" if "parse_args c = Inr a" for e a
    using parse_args_Inr [OF that] none
    by (simp add: initial_shared_def truthy_def)
  moreover have "initial_shared environ a = initial_shared environ' a" if "parse_args c = Inr a" for a
    using parse_args_Inr [OF that] none
    by (simp add: initial_shared_def truthy_def)
  ultimately show ?thesis
    by (auto simp add: main_def split: sum.splits)
qed

theorem main_local_dir_no_token_witness:
  "\<not> is_given (opt_repo (bare\<lparr>opt_dir := Given ''/repo'', opt_token := Given ''ghp_abc''\<rparr>))
   \<and> (case main [''GITHUB_TOKEN'' \<mapsto> ''ghp_env'']
              (bare\<lparr>opt_dir := Given ''/repo'', opt_token := Given ''ghp_abc''\<rparr>) of
         Ran sh \<Rightarrow> github_token sh = None \<and> local_dir sh = Some ''/repo''
       | Exited e \<Rightarrow> False)
   \<and> main [''GITHUB_TOKEN'' \<mapsto> ''ghp_env'']
         (bare\<lparr>opt_dir := Given ''/repo'', opt_token := Given ''ghp_abc''\<rparr>)
       = main Map.empty (bare\<lparr>opt_dir := Given ''/repo'', opt_token := Given ''ghp_abc''\<rparr>)"
  using main_local_dir_no_token
          [of "bare\<lparr>opt_dir := Given ''/repo'', opt_token := Given ''ghp_abc''\<rparr>"
              "[''GITHUB_TOKEN'' \<mapsto> ''ghp_env'']" Map.empty]
  by (simp add: loader_defs bare_def truthy_def)

text \<open>
  With a repository URL the token is \<^verbatim>\<open>--token\<close> if that is given and not empty,
  and \<^verbatim>\<open>GITHUB_TOKEN\<close> of the environment otherwise.
\<close>

lemma main_repo_token_fallback:
  "(case main [''GITHUB_TOKEN'' \<mapsto> ''ghp_env''] (bare\<lparr>opt_repo := Given ''https://github.com/o/r''\<rparr>) of
      Ran sh \<Rightarrow> github_token sh = Some ''ghp_env'' | Exited e \<Rightarrow> False)
   \<and> (case main [''GITHUB_TOKEN'' \<mapsto> ''ghp_env'']
            (bare\<lparr>opt_repo := Given ''https://github.com/o/r'', opt_token := Given ''ghp_abc''\<rparr>) of
      Ran sh \<Rightarrow> github_token sh = Some ''ghp_abc'' | Exited e \<Rightarrow> False)"
  by (simp add: loader_defs bare_def truthy_def py_or_def)

end
